theory Spec2Isabelle
  imports Main "HOL-Library.Char_ord" "HOL-Library.List_Lexorder"
begin

section \<open>Exceptions and Python truthiness\<close>

text \<open>
  A raised Python exception is a value: its class name and the text that \<open>str(e)\<close>
  yields. A call that may raise returns \<open>exn + 'a\<close>, with \<open>Inl\<close> for the raise.
  Python text is held as the bytes of its UTF-8 encoding.
\<close>

datatype exn = Exn (exn_class: string) (exn_str: string)

text \<open>
  Truthiness of a value that is \<open>None\<close> or a string, as in
  \<^verbatim>\<open>if not self.current_model_path\<close>: \<open>None\<close> and the empty string are false.
\<close>

definition truthy :: "string option \<Rightarrow> bool" where
  "truthy v = (case v of None \<Rightarrow> False | Some s \<Rightarrow> s \<noteq> [])"

section \<open>The AI client (services/ai.py)\<close>

text \<open>
  The two statements that \<open>AIClient\<close> sends to its connection, each with its bound
  parameter: \<^verbatim>\<open>SELECT llm_model_load(?)\<close> and \<^verbatim>\<open>SELECT llm_text_generate(?)\<close>.
\<close>

datatype ai_statement = LlmModelLoad string | LlmTextGenerate string

text \<open>
  What lies outside the repository: the file system (\<open>os.path.exists\<close>) and the native
  extension behind the two SQL functions. \<open>llm_model_load p\<close> is \<open>Some e\<close> when the
  statement raises \<open>e\<close>. \<open>llm_text_generate m\<close> is the raise, or what
  \<^verbatim>\<open>execute(...).fetchone()\<close> yields: \<open>None\<close> for no row, \<open>Some None\<close> for a row
  holding NULL, \<open>Some (Some t)\<close> for a row holding the text \<open>t\<close>.
\<close>

record environment =
  path_exists :: "string \<Rightarrow> bool"
  llm_model_load :: "string \<Rightarrow> exn option"
  llm_text_generate :: "string \<Rightarrow> exn + string option option"

text \<open>
  The client object. \<open>executed\<close> is the log of the statements passed to
  \<^verbatim>\<open>self.database_manager.db.execute\<close>, oldest first.
\<close>

record AIClient =
  session_id :: string
  current_model_path :: "string option"
  executed :: "ai_statement list"

definition load_model :: "environment \<Rightarrow> AIClient \<Rightarrow> string \<Rightarrow> bool \<times> AIClient" where
  "load_model env self model_path =
     (if \<not> path_exists env model_path then (False, self)
      else
        (let self1 = self\<lparr>executed := executed self @ [LlmModelLoad model_path]\<rparr>
         in case llm_model_load env model_path of
              Some e \<Rightarrow> (False, self1)
            | None \<Rightarrow> (True, self1\<lparr>current_model_path := Some model_path\<rparr>)))"

definition no_model_loaded_text :: string where
  "no_model_loaded_text = ''No model loaded. Please load a model first.''"

definition no_response_text :: string where
  "no_response_text = ''Sorry, I couldn'' @ [CHR 0x27] @ ''t generate a response.''"

definition error_prefix :: string where
  "error_prefix = ''Error generating response: ''"

text \<open>
  \<^verbatim>\<open>result[0] if result and result[0] else "Sorry, ..."\<close>: a fetched row is truthy (it
  has one column), its value is truthy when it is a non-empty text.
\<close>

definition first_column_or :: "string option option \<Rightarrow> string \<Rightarrow> string" where
  "first_column_or result fallback =
     (case result of
        None \<Rightarrow> fallback
      | Some v \<Rightarrow> (if truthy v then (case v of Some t \<Rightarrow> t | None \<Rightarrow> fallback) else fallback))"

definition complete :: "environment \<Rightarrow> AIClient \<Rightarrow> string \<Rightarrow> (exn + string) \<times> AIClient" where
  "complete env self message =
     (if \<not> truthy (current_model_path self) then (Inr no_model_loaded_text, self)
      else
        (let self1 = self\<lparr>executed := executed self @ [LlmTextGenerate message]\<rparr>
         in case llm_text_generate env message of
              Inl e \<Rightarrow> (Inr (error_prefix @ exn_str e), self1)
            | Inr result \<Rightarrow> (Inr (first_column_or result no_response_text), self1)))"

section \<open>The chat history store (services/db.py, services/chat.py)\<close>

text \<open>
  A row of \<open>chat_history\<close>, one field per column:
  \<^verbatim>\<open>id INTEGER PRIMARY KEY AUTOINCREMENT, role TEXT NOT NULL, message TEXT NOT NULL,
  model_used TEXT, created_at TEXT DEFAULT CURRENT_TIMESTAMP, session_id TEXT NOT NULL\<close>.
\<close>

record chat_row =
  h_id :: int
  h_role :: string
  h_message :: string
  h_model_used :: "string option"
  h_created_at :: string
  h_session_id :: string

text \<open>
  The connection held by a \<open>DatabaseManager\<close> (its field \<open>db\<close>), as the service sees
  it: the rows of \<open>chat_history\<close> in insertion order, the largest row id that
  AUTOINCREMENT has handed out (\<open>sqlite_sequence\<close>), and the clock behind
  \<open>CURRENT_TIMESTAMP\<close>. Whether a statement raises is decided outside the repository
  (a locked or full database, a missing table): \<open>faults\<close> lists the outcome of the
  coming calls of \<open>execute\<close> and \<open>commit\<close>, \<open>None\<close> for a call that goes through and
  \<open>Some e\<close> for one that raises \<open>e\<close>; past the end of the list every call goes through.
\<close>

record connection =
  chat_history :: "chat_row list"
  sqlite_sequence :: int
  current_timestamp :: string
  faults :: "exn option list"

fun next_fault :: "exn option list \<Rightarrow> exn option \<times> exn option list" where
  "next_fault [] = (None, [])"
| "next_fault (f # fs) = (f, fs)"

text \<open>Every call of \<open>execute\<close> or \<open>commit\<close> first meets its scheduled outcome.\<close>

definition begin_call :: "connection \<Rightarrow> exn option \<times> connection" where
  "begin_call c = (fst (next_fault (faults c)), c\<lparr>faults := snd (next_fault (faults c))\<rparr>)"

text \<open>
  AUTOINCREMENT: the new row id is one more than the largest id ever used in the table.
\<close>

definition next_rowid :: "connection \<Rightarrow> int" where
  "next_rowid c = max (sqlite_sequence c) (fold max (map h_id (chat_history c)) 0) + 1"

text \<open>
  \<^verbatim>\<open>INSERT INTO chat_history (role, message, model_used, session_id) VALUES (?, ?, ?, ?)\<close>
\<close>

definition insert_chat ::
  "connection \<Rightarrow> string \<Rightarrow> string \<Rightarrow> string option \<Rightarrow> string \<Rightarrow> (exn + unit) \<times> connection" where
  "insert_chat c role message model_used sid =
     (case begin_call c of
        (Some e, c1) \<Rightarrow> (Inl e, c1)
      | (None, c1) \<Rightarrow>
          (Inr (),
           c1\<lparr>chat_history := chat_history c1 @
                 [\<lparr>h_id = next_rowid c1, h_role = role, h_message = message,
                   h_model_used = model_used, h_created_at = current_timestamp c1,
                   h_session_id = sid\<rparr>],
               sqlite_sequence := next_rowid c1\<rparr>))"

text \<open>
  \<^verbatim>\<open>SELECT role, message, created_at FROM chat_history WHERE session_id = ?
  ORDER BY id DESC LIMIT ?\<close>. The rows chosen, before the projection to the three
  columns; a negative LIMIT means no limit in SQLite.
\<close>

definition history_rows :: "chat_row list \<Rightarrow> string \<Rightarrow> int \<Rightarrow> chat_row list" where
  "history_rows rows sid lim =
     (let ordered = sort_key (\<lambda>r. - h_id r) (filter (\<lambda>r. h_session_id r = sid) rows)
      in if lim < 0 then ordered else take (nat lim) ordered)"

definition select_history ::
  "connection \<Rightarrow> string \<Rightarrow> int \<Rightarrow> (exn + chat_row list) \<times> connection" where
  "select_history c sid lim =
     (case begin_call c of
        (Some e, c1) \<Rightarrow> (Inl e, c1)
      | (None, c1) \<Rightarrow> (Inr (history_rows (chat_history c1) sid lim), c1))"

text \<open>
  \<^verbatim>\<open>DELETE FROM chat_history WHERE session_id = ?\<close>; the value is \<open>cursor.rowcount\<close>.
\<close>

definition delete_history :: "connection \<Rightarrow> string \<Rightarrow> (exn + int) \<times> connection" where
  "delete_history c sid =
     (case begin_call c of
        (Some e, c1) \<Rightarrow> (Inl e, c1)
      | (None, c1) \<Rightarrow>
          (Inr (int (length (filter (\<lambda>r. h_session_id r = sid) (chat_history c1)))),
           c1\<lparr>chat_history := filter (\<lambda>r. h_session_id r \<noteq> sid) (chat_history c1)\<rparr>))"

text \<open>
  \<^verbatim>\<open>SELECT COUNT(*) FROM chat_history WHERE session_id = ?\<close> and the same with
  \<^verbatim>\<open>AND role = 'user'\<close>; the value is what \<open>fetchone()\<close> yields, always one row.
\<close>

definition count_session :: "connection \<Rightarrow> string \<Rightarrow> (exn + int option) \<times> connection" where
  "count_session c sid =
     (case begin_call c of
        (Some e, c1) \<Rightarrow> (Inl e, c1)
      | (None, c1) \<Rightarrow>
          (Inr (Some (int (length (filter (\<lambda>r. h_session_id r = sid) (chat_history c1))))), c1))"

definition count_session_user :: "connection \<Rightarrow> string \<Rightarrow> (exn + int option) \<times> connection" where
  "count_session_user c sid =
     (case begin_call c of
        (Some e, c1) \<Rightarrow> (Inl e, c1)
      | (None, c1) \<Rightarrow>
          (Inr (Some (int (length
             (filter (\<lambda>r. h_session_id r = sid \<and> h_role r = ''user'') (chat_history c1))))), c1))"

text \<open>
  \<open>commit\<close> changes nothing the connection itself can see: its own pending rows are
  already visible to it. A commit that raises leaves them pending.
\<close>

definition commit :: "connection \<Rightarrow> (exn + unit) \<times> connection" where
  "commit c = (case begin_call c of (Some e, c1) \<Rightarrow> (Inl e, c1) | (None, c1) \<Rightarrow> (Inr (), c1))"

text \<open>
  The service: its AI client and its database manager, \<open>None\<close> when it was built
  without one (\<^verbatim>\<open>if self.db:\<close>).
\<close>

record ChatService =
  ai :: AIClient
  db :: "connection option"

definition chat :: "environment \<Rightarrow> ChatService \<Rightarrow> string \<Rightarrow> string \<Rightarrow> string \<times> ChatService" where
  "chat env self sid message =
     (let (r, ai1) = complete env (ai self) message;
          response = (case r of Inr t \<Rightarrow> t | Inl e \<Rightarrow> error_prefix @ exn_str e);
          self1 = self\<lparr>ai := ai1\<rparr>
      in case db self1 of
           None \<Rightarrow> (response, self1)
         | Some c \<Rightarrow>
             (let model_used = current_model_path ai1
              in case insert_chat c ''user'' message model_used sid of
                   (Inl e, c1) \<Rightarrow> (response, self1\<lparr>db := Some c1\<rparr>)
                 | (Inr u, c1) \<Rightarrow>
                     (case insert_chat c1 ''assistant'' response model_used sid of
                        (Inl e, c2) \<Rightarrow> (response, self1\<lparr>db := Some c2\<rparr>)
                      | (Inr u, c2) \<Rightarrow> (response, self1\<lparr>db := Some (snd (commit c2))\<rparr>))))"

text \<open>\<open>dict(msg)\<close> of a fetched row: its three columns, by name.\<close>

definition row_dict :: "chat_row \<Rightarrow> (string \<times> string) list" where
  "row_dict r = [(''role'', h_role r), (''message'', h_message r), (''created_at'', h_created_at r)]"

definition get_history ::
  "ChatService \<Rightarrow> string \<Rightarrow> int \<Rightarrow> (string \<times> string) list list \<times> ChatService" where
  "get_history self sid lim =
     (case db self of
        None \<Rightarrow> ([], self)
      | Some c \<Rightarrow>
          (case select_history c sid lim of
             (Inl e, c1) \<Rightarrow> ([], self\<lparr>db := Some c1\<rparr>)
           | (Inr messages, c1) \<Rightarrow> (map row_dict messages, self\<lparr>db := Some c1\<rparr>)))"

definition clear_history :: "ChatService \<Rightarrow> string \<Rightarrow> int \<times> ChatService" where
  "clear_history self sid =
     (case db self of
        None \<Rightarrow> (0, self)
      | Some c \<Rightarrow>
          (case delete_history c sid of
             (Inl e, c1) \<Rightarrow> (0, self\<lparr>db := Some c1\<rparr>)
           | (Inr deleted_count, c1) \<Rightarrow>
               (case commit c1 of
                  (Inl e, c2) \<Rightarrow> (0, self\<lparr>db := Some c2\<rparr>)
                | (Inr u, c2) \<Rightarrow> (deleted_count, self\<lparr>db := Some c2\<rparr>))))"

definition get_message_stats :: "ChatService \<Rightarrow> string \<Rightarrow> (int \<times> int) \<times> ChatService" where
  "get_message_stats self sid =
     (case db self of
        None \<Rightarrow> ((0, 0), self)
      | Some c \<Rightarrow>
          (case count_session c sid of
             (Inl e, c1) \<Rightarrow> ((0, 0), self\<lparr>db := Some c1\<rparr>)
           | (Inr total_result, c1) \<Rightarrow>
               (let total_messages = (case total_result of Some n \<Rightarrow> n | None \<Rightarrow> 0)
                in case count_session_user c1 sid of
                     (Inl e, c2) \<Rightarrow> ((0, 0), self\<lparr>db := Some c2\<rparr>)
                   | (Inr user_result, c2) \<Rightarrow>
                       (let user_messages = (case user_result of Some n \<Rightarrow> n | None \<Rightarrow> 0)
                        in ((total_messages, user_messages), self\<lparr>db := Some c2\<rparr>)))))"

section \<open>The sync client (sqlite_sync/sync.py)\<close>

text \<open>The pictographs of the echoed lines, as UTF-8 bytes.\<close>

definition cross_mark :: string where
  "cross_mark = [CHR 0xE2, CHR 0x9D, CHR 0x8C]"

definition check_mark :: string where
  "check_mark = [CHR 0xE2, CHR 0x9C, CHR 0x85]"

definition plus_sign :: string where
  "plus_sign = [CHR 0xE2, CHR 0x9E, CHR 0x95]"

definition inbox_tray :: string where
  "inbox_tray = [CHR 0xF0, CHR 0x9F, CHR 0x93, CHR 0xA5]"

definition arrows :: string where
  "arrows = [CHR 0xF0, CHR 0x9F, CHR 0x94, CHR 0x84]"

definition memo :: string where
  "memo = [CHR 0xF0, CHR 0x9F, CHR 0x93, CHR 0x9D]"

definition clipboard :: string where
  "clipboard = [CHR 0xF0, CHR 0x9F, CHR 0x93, CHR 0x8B]"

definition red_circle :: string where
  "red_circle = [CHR 0xE2, CHR 0xAD, CHR 0x95]"

definition phone :: string where
  "phone = [CHR 0xF0, CHR 0x9F, CHR 0x93, CHR 0xB1]"

definition cloud_sign :: string where
  "cloud_sign = [CHR 0xE2, CHR 0x98, CHR 0x81, CHR 0xEF, CHR 0xB8, CHR 0x8F]"

text \<open>Decimal text of a natural number, for the counts inside f-strings.\<close>

function str_nat :: "nat \<Rightarrow> string" where
  "str_nat n = (if n < 10 then [char_of (48 + n)] else str_nat (n div 10) @ [char_of (48 + n mod 10)])"
  by pat_completeness auto
termination
  by (relation "measure id") auto

text \<open>
  A row of \<open>todos\<close>:
  \<^verbatim>\<open>id TEXT PRIMARY KEY NOT NULL, title TEXT NOT NULL DEFAULT '',
  completed INTEGER NOT NULL DEFAULT 0, created_at TEXT DEFAULT CURRENT_TIMESTAMP,
  device TEXT NOT NULL DEFAULT ''\<close>.
\<close>

record todo =
  t_id :: string
  t_title :: string
  t_completed :: int
  t_created_at :: string
  t_device :: string

text \<open>
  What lies outside the repository: the native sync extension behind the
  \<open>cloudsync_*\<close> SQL functions, the random \<open>uuid.uuid4()\<close> and the clock. A function of
  the extension raises (\<open>Some e\<close>, \<open>Inl e\<close>) or yields its value.
  \<open>cloudsync_network_sync\<close> is the only one that exchanges rows with other devices: it
  takes the table as it is and gives what \<open>fetchone()\<close> yields together with the table
  as the extension leaves it. What \<open>fetchone()\<close> yields there is \<open>None\<close> for no row,
  \<open>Some None\<close> for a row holding NULL and \<open>Some (Some n)\<close> for a row holding the
  count \<open>n\<close>.
\<close>

record cloudsync =
  cloudsync_network_init :: "string \<Rightarrow> exn option"
  cloudsync_network_set_apikey :: "string \<Rightarrow> exn option"
  cloudsync_network_sync :: "todo list \<Rightarrow> (exn + int option option) \<times> todo list"
  cloudsync_uuid :: "exn + string"
  uuid4 :: string
  now :: string

text \<open>
  The client once its constructor has run: the connection is open and \<open>todos\<close> exists.
  \<open>todos\<close> holds the rows of the table in insertion order, \<open>echoed\<close> the lines written
  by \<open>click.echo\<close> to standard output, oldest first.
\<close>

record SyncClient =
  client_id :: string
  database_path :: string
  sync_enabled :: bool
  todos :: "todo list"
  echoed :: "string list"

definition echo :: "SyncClient \<Rightarrow> string \<Rightarrow> SyncClient" where
  "echo self line = self\<lparr>echoed := echoed self @ [line]\<rparr>"

definition setup_cloud :: "cloudsync \<Rightarrow> SyncClient \<Rightarrow> string \<Rightarrow> string \<Rightarrow> bool \<times> SyncClient" where
  "setup_cloud ext self connection_string api_key =
     (if \<not> sync_enabled self then (False, echo self (cross_mark @ '' Sync not available''))
      else
        (case cloudsync_network_init ext connection_string of
           Some e \<Rightarrow> (False, echo self (cross_mark @ '' Cloud setup failed: '' @ exn_str e))
         | None \<Rightarrow>
             (case cloudsync_network_set_apikey ext api_key of
                Some e \<Rightarrow> (False, echo self (cross_mark @ '' Cloud setup failed: '' @ exn_str e))
              | None \<Rightarrow> (True, echo self (cloud_sign @ ''  Connected to SQLite Cloud'')))))"

text \<open>
  \<^verbatim>\<open>changes = result[0] if result else 0\<close>, then \<^verbatim>\<open>if changes > 0\<close>: on a row
  holding NULL the comparison of \<open>None\<close> with 0 raises \<open>TypeError\<close>, which the handler
  of \<open>sync\<close> reports like any other failure.
\<close>

definition none_compare_text :: string where
  "none_compare_text =
     [CHR 0x27] @ ''>'' @ [CHR 0x27] @ '' not supported between instances of '' @
     [CHR 0x27] @ ''NoneType'' @ [CHR 0x27] @ '' and '' @ [CHR 0x27] @ ''int'' @ [CHR 0x27]"

definition sync :: "cloudsync \<Rightarrow> SyncClient \<Rightarrow> SyncClient" where
  "sync ext self =
     (if \<not> sync_enabled self then echo self (cross_mark @ '' Sync not enabled'')
      else
        (case cloudsync_network_sync ext (todos self) of
           (Inl e, merged) \<Rightarrow>
             echo (self\<lparr>todos := merged\<rparr>) (cross_mark @ '' Sync failed: '' @ exn_str e)
         | (Inr result, merged) \<Rightarrow>
             (case (case result of Some v \<Rightarrow> v | None \<Rightarrow> Some 0) of
                None \<Rightarrow>
                  echo (self\<lparr>todos := merged\<rparr>) (cross_mark @ '' Sync failed: '' @ none_compare_text)
              | Some changes \<Rightarrow>
                  (if changes > 0
                   then echo (self\<lparr>todos := merged\<rparr>)
                          (inbox_tray @ '' Received '' @ str_nat (nat changes) @
                           '' changes from other devices'')
                   else echo (self\<lparr>todos := merged\<rparr>)
                          (arrows @ '' Sync complete - no new changes'')))))"

definition get_uuid :: "cloudsync \<Rightarrow> SyncClient \<Rightarrow> string" where
  "get_uuid ext self =
     (if sync_enabled self
      then (case cloudsync_uuid ext of Inr u \<Rightarrow> u | Inl e \<Rightarrow> uuid4 ext)
      else uuid4 ext)"

text \<open>
  \<^verbatim>\<open>INSERT INTO todos (id, title, device) VALUES (?, ?, ?)\<close> raises when the primary
  key is taken already; \<open>add_todo\<close> has no handler, so the exception is its outcome.
\<close>

definition add_todo :: "cloudsync \<Rightarrow> SyncClient \<Rightarrow> string \<Rightarrow> (exn + string) \<times> SyncClient" where
  "add_todo ext self title =
     (let todo_id = get_uuid ext self
      in if todo_id \<in> set (map t_id (todos self))
         then (Inl (Exn ''IntegrityError'' ''UNIQUE constraint failed: todos.id''), self)
         else (Inr todo_id,
               echo (self\<lparr>todos := todos self @
                        [\<lparr>t_id = todo_id, t_title = title, t_completed = 0,
                          t_created_at = now ext, t_device = client_id self\<rparr>]\<rparr>)
                    (plus_sign @ '' Added: '' @ title)))"

text \<open>
  \<^verbatim>\<open>UPDATE todos SET completed = 1 WHERE id = ?\<close>; \<open>cursor.rowcount\<close> is the number of
  rows the WHERE clause matched.
\<close>

definition complete_todo :: "SyncClient \<Rightarrow> string \<Rightarrow> SyncClient" where
  "complete_todo self todo_id =
     (let rowcount = int (length (filter (\<lambda>t. t_id t = todo_id) (todos self)));
          self1 = self\<lparr>todos := map (\<lambda>t. if t_id t = todo_id then t\<lparr>t_completed := 1\<rparr> else t)
                                   (todos self)\<rparr>
      in if rowcount > 0 then echo self1 (check_mark @ '' Todo completed!'')
         else echo self1 (cross_mark @ '' Todo not found''))"

text \<open>
  The first \<open>n\<close> characters of a text held as UTF-8 bytes, as the slice
  \<^verbatim>\<open>todo['id'][:8]\<close> takes them: a byte \<open>10xxxxxx\<close> continues the character begun
  before it.
\<close>

definition is_continuation :: "char \<Rightarrow> bool" where
  "is_continuation c = (128 \<le> (of_char c :: nat) \<and> (of_char c :: nat) < 192)"

fun take_chars :: "nat \<Rightarrow> string \<Rightarrow> string" where
  "take_chars n [] = []"
| "take_chars n (c # cs) =
     (if is_continuation c then c # take_chars n cs
      else (case n of 0 \<Rightarrow> [] | Suc m \<Rightarrow> c # take_chars m cs))"

text \<open>
  \<^verbatim>\<open>SELECT id, title, completed, device FROM todos ORDER BY created_at\<close>, and the two
  lines echoed for each row.
\<close>

definition todo_lines :: "SyncClient \<Rightarrow> string \<times> string \<times> int \<times> string \<Rightarrow> string list" where
  "todo_lines self row =
     (case row of (rid, title, completed, device) \<Rightarrow>
        (let status = (if completed \<noteq> 0 then check_mark else red_circle);
             device_info = (if device \<noteq> client_id self then '' (from '' @ device @ '')'' else [])
         in [''   '' @ status @ '' '' @ title @ device_info,
             ''      ID: '' @ take_chars 8 rid]))"

definition list_todos ::
  "SyncClient \<Rightarrow> (string \<times> string \<times> int \<times> string) list option \<times> SyncClient" where
  "list_todos self =
     (let fetched = map (\<lambda>t. (t_id t, t_title t, t_completed t, t_device t))
                        (sort_key t_created_at (todos self))
      in if fetched = [] then (None, echo self (memo @ '' No todos yet''))
         else (Some fetched,
               echo (foldl echo (echo self ([CHR 0x0A] @ clipboard @ '' Your Todos:''))
                           (concat (map (todo_lines self) fetched)))
                    []))"

definition show_status :: "SyncClient \<Rightarrow> SyncClient" where
  "show_status self =
     (let todo_count = length (todos self)
      in echo (echo (echo (echo self ([CHR 0x0A] @ phone @ '' Device: '' @ client_id self))
                          (memo @ '' Todos: '' @ str_nat todo_count))
                    (arrows @ '' Sync: '' @ (if sync_enabled self then ''Enabled'' else ''Local only'')))
              [])"

section \<open>The command-line programs (sqlite_sync/sync.py, sqlite_ai/services/cli.py)\<close>









subsection \<open>The sync quickstart\<close>






















text \<open>The subcommands of the sync quickstart with their arguments.\<close>

datatype sync_command =
  Add string | List | Complete string | Sync | Status | Cloud string string



subsection \<open>The AI quickstart\<close>














section \<open>Sample states\<close>

text \<open>
  \<open>goes_through n c\<close>: the next \<open>n\<close> calls of \<open>execute\<close> and \<open>commit\<close> on \<open>c\<close> do not
  raise.
\<close>

definition goes_through :: "nat \<Rightarrow> connection \<Rightarrow> bool" where
  "goes_through n c = list_all (\<lambda>f. f = None) (take n (faults c))"

definition sample_env :: environment where
  "sample_env =
     \<lparr>path_exists = (\<lambda>p. p = ''models/tiny.gguf''),
      llm_model_load = (\<lambda>p. None),
      llm_text_generate = (\<lambda>m. Inr (Some (Some ''Hi there!'')))\<rparr>"

definition silent_env :: environment where
  "silent_env =
     \<lparr>path_exists = (\<lambda>p. p = ''models/tiny.gguf''),
      llm_model_load = (\<lambda>p. None),
      llm_text_generate = (\<lambda>m. Inr (Some None))\<rparr>"

definition fresh_client :: AIClient where
  "fresh_client = \<lparr>session_id = ''demo'', current_model_path = None, executed = []\<rparr>"

definition loaded_client :: AIClient where
  "loaded_client =
     \<lparr>session_id = ''demo'', current_model_path = Some ''models/tiny.gguf'',
      executed = [LlmModelLoad ''models/tiny.gguf'']\<rparr>"

definition database_locked :: exn where
  "database_locked = Exn ''OperationalError'' ''database is locked''"

definition sample_rows :: "chat_row list" where
  "sample_rows =
     [\<lparr>h_id = 1, h_role = ''user'', h_message = ''Hello'', h_model_used = None,
       h_created_at = ''2025-01-01 10:00:00'', h_session_id = ''A''\<rparr>,
      \<lparr>h_id = 2, h_role = ''assistant'', h_message = ''Hi'', h_model_used = None,
       h_created_at = ''2025-01-01 10:00:00'', h_session_id = ''A''\<rparr>,
      \<lparr>h_id = 3, h_role = ''user'', h_message = ''Hello'', h_model_used = None,
       h_created_at = ''2025-01-01 10:00:00'', h_session_id = ''B''\<rparr>,
      \<lparr>h_id = 4, h_role = ''assistant'', h_message = ''Hi'', h_model_used = None,
       h_created_at = ''2025-01-01 10:00:00'', h_session_id = ''B''\<rparr>,
      \<lparr>h_id = 5, h_role = ''user'', h_message = ''More'', h_model_used = None,
       h_created_at = ''2025-01-01 10:00:05'', h_session_id = ''A''\<rparr>]"

definition sample_connection :: "exn option list \<Rightarrow> connection" where
  "sample_connection fs =
     \<lparr>chat_history = sample_rows, sqlite_sequence = 5,
      current_timestamp = ''2025-01-01 10:01:00'', faults = fs\<rparr>"

definition sample_service :: "exn option list \<Rightarrow> ChatService" where
  "sample_service fs = \<lparr>ai = loaded_client, db = Some (sample_connection fs)\<rparr>"

definition sample_cloudsync :: cloudsync where
  "sample_cloudsync =
     \<lparr>cloudsync_network_init = (\<lambda>u. None),
      cloudsync_network_set_apikey = (\<lambda>k. None),
      cloudsync_network_sync = (\<lambda>t. (Inr (Some (Some 0)), t)),
      cloudsync_uuid = Inr ''0198c0de'',
      uuid4 = ''5f0c7a1e'',
      now = ''2025-01-01 10:02:00''\<rparr>"

definition sample_sync_client :: SyncClient where
  "sample_sync_client =
     \<lparr>client_id = ''device-a'', database_path = ''./data/tutorial.db'', sync_enabled = True,
      todos = [\<lparr>t_id = ''t1'', t_title = ''Learn X'', t_completed = 0,
                t_created_at = ''2025-01-01 10:00:00'', t_device = ''device-a''\<rparr>,
               \<lparr>t_id = ''t2'', t_title = ''Build Y'', t_completed = 0,
                t_created_at = ''2025-01-01 10:00:01'', t_device = ''device-b''\<rparr>],
      echoed = []\<rparr>"






section \<open>Properties of the AI client\<close>

text \<open>
  C3. With no model loaded (\<open>current_model_path\<close> is \<open>None\<close>), \<open>complete\<close> returns the
  fixed text "No model loaded. Please load a model first." for every message and
  leaves the client as it was: the statement log is the same, so no
  \<open>llm_text_generate\<close> statement has been executed.
\<close>

theorem complete_no_model:
  "current_model_path self = None \<Longrightarrow>
     complete env self message = (Inr ''No model loaded. Please load a model first.'', self) \<and>
     executed (snd (complete env self message)) = executed self"
  by (simp add: complete_def truthy_def no_model_loaded_text_def)

theorem complete_no_model_witness:
  "current_model_path fresh_client = None \<and>
   complete sample_env fresh_client ''Hello'' =
     (Inr ''No model loaded. Please load a model first.'', fresh_client) \<and>
   executed (snd (complete sample_env fresh_client ''Hello'')) = []"
  using complete_no_model [of fresh_client sample_env "''Hello''"]
  by (simp add: fresh_client_def)

text \<open>
  C4. For a path that does not exist on the file system, \<open>load_model\<close> returns false and
  leaves the client as it was: no \<open>llm_model_load\<close> statement is executed and
  \<open>current_model_path\<close> keeps its value.
\<close>

theorem load_model_missing_file:
  "\<not> path_exists env model_path \<Longrightarrow>
     fst (load_model env self model_path) = False \<and>
     snd (load_model env self model_path) = self \<and>
     executed (snd (load_model env self model_path)) = executed self \<and>
     current_model_path (snd (load_model env self model_path)) = current_model_path self"
  by (simp add: load_model_def)

theorem load_model_missing_file_witness:
  "\<not> path_exists sample_env ''/nonexistent/model.gguf'' \<and>
   fst (load_model sample_env fresh_client ''/nonexistent/model.gguf'') = False \<and>
   executed (snd (load_model sample_env fresh_client ''/nonexistent/model.gguf'')) = [] \<and>
   current_model_path (snd (load_model sample_env fresh_client ''/nonexistent/model.gguf'')) = None"
  using load_model_missing_file [of sample_env "''/nonexistent/model.gguf''" fresh_client]
  by (simp add: sample_env_def fresh_client_def)

text \<open>
  C10. With a model loaded, \<open>complete\<close> returns a non-empty string and never raises: the
  fixed fallback when the extension yields no row, NULL or the empty text, the
  generated text when it is not empty, and "Error generating response: " followed by
  the error's text when the extension call raises.
\<close>

theorem complete_with_model:
  assumes "current_model_path self = Some p" and "p \<noteq> []"
  shows "\<exists>s. fst (complete env self message) = Inr s \<and> s \<noteq> [] \<and>
           (llm_text_generate env message \<in> {Inr None, Inr (Some None), Inr (Some (Some []))}
              \<longrightarrow> s = ''Sorry, I couldn'' @ [CHR 0x27] @ ''t generate a response.'') \<and>
           (\<forall>t. llm_text_generate env message = Inr (Some (Some t)) \<and> t \<noteq> [] \<longrightarrow> s = t) \<and>
           (\<forall>e. llm_text_generate env message = Inl e
              \<longrightarrow> s = ''Error generating response: '' @ exn_str e)"
  using assms
  by (auto simp: complete_def first_column_or_def truthy_def
        no_response_text_def error_prefix_def Let_def split: sum.splits option.splits)

theorem complete_with_model_witness:
  "current_model_path loaded_client = Some ''models/tiny.gguf'' \<and>
   llm_text_generate silent_env ''Hello'' = Inr (Some None) \<and>
   fst (complete silent_env loaded_client ''Hello'') =
     Inr (''Sorry, I couldn'' @ [CHR 0x27] @ ''t generate a response.'')"
  using complete_with_model [of loaded_client "''models/tiny.gguf''" silent_env "''Hello''"]
  by (auto simp: loaded_client_def silent_env_def)

section \<open>Properties of the chat service\<close>

lemma begin_call_ok:
  "goes_through (Suc n) c \<Longrightarrow>
     begin_call c = (None, c\<lparr>faults := tl (faults c)\<rparr>) \<and>
     goes_through n (c\<lparr>faults := tl (faults c)\<rparr>)"
  by (cases "faults c") (simp_all add: begin_call_def goes_through_def)

lemma complete_keeps_model_path:
  "current_model_path (snd (complete env self message)) = current_model_path self"
  by (simp add: complete_def Let_def split: sum.splits)

lemma complete_total: "\<exists>s. fst (complete env self message) = Inr s"
  by (simp add: complete_def Let_def split: sum.splits)

lemma insert_chat_ok:
  assumes "goes_through (Suc n) c"
  shows "\<exists>c1. insert_chat c role message model_used sid = (Inr (), c1) \<and>
           chat_history c1 = chat_history c @
             [\<lparr>h_id = next_rowid c, h_role = role, h_message = message,
               h_model_used = model_used, h_created_at = current_timestamp c,
               h_session_id = sid\<rparr>] \<and>
           next_rowid c1 = next_rowid c + 1 \<and>
           current_timestamp c1 = current_timestamp c \<and>
           goes_through n c1"
  using begin_call_ok [OF assms]
  by (simp add: insert_chat_def next_rowid_def goes_through_def)

text \<open>
  C1. When the service has a database and its two INSERT statements go through, a chat
  turn appends exactly two rows to \<open>chat_history\<close>: first the row with role "user"
  holding the input message, then the row with role "assistant" holding the returned
  response. Both carry the given session id and, as \<open>model_used\<close>, the AI client's
  current model path.
\<close>

theorem chat_inserts_turn:
  assumes "db self = Some c" and "goes_through 2 c"
  shows "\<exists>c'. db (snd (chat env self sid message)) = Some c' \<and>
           chat_history c' = chat_history c @
             [\<lparr>h_id = next_rowid c, h_role = ''user'', h_message = message,
               h_model_used = current_model_path (ai self),
               h_created_at = current_timestamp c, h_session_id = sid\<rparr>,
              \<lparr>h_id = next_rowid c + 1, h_role = ''assistant'',
               h_message = fst (chat env self sid message),
               h_model_used = current_model_path (ai self),
               h_created_at = current_timestamp c, h_session_id = sid\<rparr>]"
proof -
  obtain r ai1 where r: "complete env (ai self) message = (r, ai1)"
    by (cases "complete env (ai self) message")
  define response where
    "response = (case r of Inr t \<Rightarrow> t | Inl e \<Rightarrow> error_prefix @ exn_str e)"
  have mp: "current_model_path ai1 = current_model_path (ai self)"
    using complete_keeps_model_path [of env "ai self" message] r by simp
  have g2: "goes_through (Suc 1) c"
    using assms(2) by (simp add: numeral_2_eq_2)
  obtain c1 where c1:
      "insert_chat c ''user'' message (current_model_path ai1) sid = (Inr (), c1)"
    and h1: "chat_history c1 = chat_history c @
             [\<lparr>h_id = next_rowid c, h_role = ''user'', h_message = message,
               h_model_used = current_model_path ai1, h_created_at = current_timestamp c,
               h_session_id = sid\<rparr>]"
    and n1: "next_rowid c1 = next_rowid c + 1"
    and t1: "current_timestamp c1 = current_timestamp c"
    and g1: "goes_through 1 c1"
    using insert_chat_ok [OF g2] by blast
  have g1': "goes_through (Suc 0) c1"
    using g1 by simp
  obtain c2 where c2:
      "insert_chat c1 ''assistant'' response (current_model_path ai1) sid = (Inr (), c2)"
    and h2: "chat_history c2 = chat_history c1 @
             [\<lparr>h_id = next_rowid c1, h_role = ''assistant'', h_message = response,
               h_model_used = current_model_path ai1, h_created_at = current_timestamp c1,
               h_session_id = sid\<rparr>]"
    using insert_chat_ok [OF g1'] by blast
  have hc: "chat_history (snd (commit c2)) = chat_history c2"
    by (simp add: commit_def begin_call_def split: prod.splits option.splits)
  have res: "chat env self sid message =
               (response, self\<lparr>ai := ai1, db := Some (snd (commit c2))\<rparr>)"
    using r c1 c2 assms(1) by (simp add: chat_def response_def)
  show ?thesis
    using res hc h1 h2 n1 t1 mp by simp
qed

lemma sample_next_rowid: "next_rowid (sample_connection fs) = 6"
  by (simp add: next_rowid_def sample_connection_def sample_rows_def)

theorem chat_inserts_turn_witness:
  "db (sample_service [None, None, Some database_locked]) =
     Some (sample_connection [None, None, Some database_locked]) \<and>
   goes_through 2 (sample_connection [None, None, Some database_locked]) \<and>
   fst (chat sample_env (sample_service [None, None, Some database_locked]) ''A'' ''Hello'') =
     ''Hi there!'' \<and>
   map_option chat_history
     (db (snd (chat sample_env (sample_service [None, None, Some database_locked])
                 ''A'' ''Hello''))) =
     Some (sample_rows @
       [\<lparr>h_id = 6, h_role = ''user'', h_message = ''Hello'',
         h_model_used = Some ''models/tiny.gguf'',
         h_created_at = ''2025-01-01 10:01:00'', h_session_id = ''A''\<rparr>,
        \<lparr>h_id = 7, h_role = ''assistant'', h_message = ''Hi there!'',
         h_model_used = Some ''models/tiny.gguf'',
         h_created_at = ''2025-01-01 10:01:00'', h_session_id = ''A''\<rparr>])"
proof -
  have r: "fst (chat sample_env (sample_service [None, None, Some database_locked])
                  ''A'' ''Hello'') = ''Hi there!''"
    by (simp add: chat_def complete_def sample_service_def loaded_client_def sample_env_def
          truthy_def first_column_or_def Let_def split: prod.splits sum.splits option.splits)
  have d: "db (sample_service [None, None, Some database_locked]) =
     Some (sample_connection [None, None, Some database_locked])"
    by (simp add: sample_service_def)
  have g: "goes_through 2 (sample_connection [None, None, Some database_locked])"
    by (simp add: goes_through_def sample_connection_def numeral_2_eq_2)
  show ?thesis
    using chat_inserts_turn [OF d g, of sample_env "''A''" "''Hello''"] r d g
    by (auto simp: sample_next_rowid)
       (simp_all add: sample_connection_def sample_service_def loaded_client_def)
qed

text \<open>
  C7. Whatever happens to the statements that store the turn, also when one of them
  raises, \<open>chat\<close> returns the text that the AI client's \<open>complete\<close> produced: the value
  does not depend on the database at all, nor on whether the service has one.
\<close>

theorem chat_response_unaffected:
  "fst (complete env (ai self) message) = Inr (fst (chat env self sid message)) \<and>
   fst (chat env (self\<lparr>db := d\<rparr>) sid message) = fst (chat env self sid message)"
proof -
  have a: "fst (chat env s sid message) =
        (case fst (complete env (ai s) message) of
           Inr t \<Rightarrow> t | Inl e \<Rightarrow> error_prefix @ exn_str e)" for s
    by (simp add: chat_def Let_def split: prod.splits option.splits sum.splits)
  obtain t where "fst (complete env (ai self) message) = Inr t"
    using complete_total by blast
  then show ?thesis
    using a [of self] a [of "self\<lparr>db := d\<rparr>"] by simp
qed

theorem chat_response_unaffected_witness:
  "fst (complete sample_env loaded_client ''Hello'') = Inr ''Hi there!'' \<and>
   fst (chat sample_env (sample_service [Some database_locked]) ''A'' ''Hello'') = ''Hi there!'' \<and>
   map_option chat_history
     (db (snd (chat sample_env (sample_service [Some database_locked]) ''A'' ''Hello''))) =
     Some sample_rows"
proof -
  have c: "fst (complete sample_env loaded_client ''Hello'') = Inr ''Hi there!''"
    by (simp add: complete_def loaded_client_def sample_env_def truthy_def first_column_or_def)
  have a: "ai (sample_service [Some database_locked]) = loaded_client"
    by (simp add: sample_service_def)
  have h: "map_option chat_history
     (db (snd (chat sample_env (sample_service [Some database_locked]) ''A'' ''Hello''))) =
     Some sample_rows"
    by (simp add: chat_def insert_chat_def begin_call_def sample_service_def
          sample_connection_def Let_def split: prod.splits)
  show ?thesis
    using chat_response_unaffected
            [of sample_env "sample_service [Some database_locked]" "''Hello''" "''A''"] c a h
    by simp
qed

lemma history_rows_subset:
  "set (history_rows rows sid lim) \<subseteq> {r \<in> set rows. h_session_id r = sid}"
  by (auto simp: history_rows_def Let_def dest: in_set_takeD)

lemma sorted_desc:
  "sorted_wrt (\<lambda>a b. h_id b \<le> h_id a) (sort_key (\<lambda>r. - h_id r) xs)"
proof -
  have "sorted (map (\<lambda>r. - h_id r) (sort_key (\<lambda>r. - h_id r) xs))"
    by (rule sorted_sort_key)
  then show ?thesis
    by (simp add: sorted_map)
qed

lemma history_rows_sorted:
  "sorted_wrt (\<lambda>a b. h_id b \<le> h_id a) (history_rows rows sid lim)"
  by (simp add: history_rows_def Let_def sorted_desc)

lemma history_rows_length:
  "0 \<le> lim \<Longrightarrow> length (history_rows rows sid lim) =
     min (nat lim) (length (filter (\<lambda>r. h_session_id r = sid) rows))"
  by (simp add: history_rows_def Let_def min_def)

lemma history_rows_newest:
  assumes "0 \<le> lim" and "r \<in> set rows" and "h_session_id r = sid"
    and "r \<notin> set (history_rows rows sid lim)" and "s \<in> set (history_rows rows sid lim)"
  shows "h_id r \<le> h_id s"
proof -
  define ordered where
    "ordered = sort_key (\<lambda>r. - h_id r) (filter (\<lambda>r. h_session_id r = sid) rows)"
  have hr: "history_rows rows sid lim = take (nat lim) ordered"
    using assms(1) by (simp add: history_rows_def ordered_def)
  have "r \<in> set ordered"
    using assms(2,3) by (simp add: ordered_def)
  then have "r \<in> set (take (nat lim) ordered) \<union> set (drop (nat lim) ordered)"
    by (metis append_take_drop_id set_append)
  then have rd: "r \<in> set (drop (nat lim) ordered)"
    using assms(4) hr by simp
  have "sorted_wrt (\<lambda>a b. h_id b \<le> h_id a) (take (nat lim) ordered @ drop (nat lim) ordered)"
    by (simp add: ordered_def sorted_desc)
  then have "\<forall>x\<in>set (take (nat lim) ordered). \<forall>y\<in>set (drop (nat lim) ordered). h_id y \<le> h_id x"
    unfolding sorted_wrt_append by blast
  then show ?thesis
    using rd assms(5) hr by simp
qed

lemma get_history_cases:
  "(fst (get_history self sid lim) = [] \<and>
      (db self = None \<or> (\<exists>c. db self = Some c \<and> \<not> goes_through 1 c))) \<or>
   (\<exists>c. db self = Some c \<and> goes_through 1 c \<and>
        fst (get_history self sid lim) = map row_dict (history_rows (chat_history c) sid lim))"
  by (cases "db self"; cases "faults (the (db self))")
     (auto simp: get_history_def select_history_def begin_call_def goes_through_def
           split: option.splits)

text \<open>
  C2. For a limit \<open>n \<ge> 0\<close>, \<open>get_history\<close> returns the dictionaries of a list of rows
  \<open>sel\<close> of the table with at most \<open>n\<close> members, all of the given session, in
  descending order of row id. When the service has a database and the SELECT goes
  through, \<open>sel\<close> has \<open>n\<close> rows, or all rows of the session when these are fewer, and
  they are the newest: no row of the session left out has a larger id than a row
  returned.
\<close>

theorem get_history_limit_order:
  assumes "0 \<le> lim"
  shows "\<exists>sel. fst (get_history self sid lim) = map row_dict sel \<and>
           length sel \<le> nat lim \<and>
           (\<forall>r\<in>set sel. h_session_id r = sid \<and>
                         (\<exists>c. db self = Some c \<and> r \<in> set (chat_history c))) \<and>
           sorted_wrt (\<lambda>a b. h_id b \<le> h_id a) sel \<and>
           (\<forall>c. db self = Some c \<and> goes_through 1 c \<longrightarrow>
              length sel =
                min (nat lim) (length (filter (\<lambda>r. h_session_id r = sid) (chat_history c))) \<and>
              (\<forall>r\<in>set (chat_history c). \<forall>s\<in>set sel.
                 h_session_id r = sid \<and> r \<notin> set sel \<longrightarrow> h_id r \<le> h_id s))"
proof -
  consider (empty) "fst (get_history self sid lim) = []"
      "db self = None \<or> (\<exists>c. db self = Some c \<and> \<not> goes_through 1 c)"
    | (rows) c where "db self = Some c" "goes_through 1 c"
      "fst (get_history self sid lim) = map row_dict (history_rows (chat_history c) sid lim)"
    using get_history_cases [of self sid lim] by blast
  then show ?thesis
  proof cases
    case empty
    then have "fst (get_history self sid lim) = map row_dict [] \<and>
           length ([]::chat_row list) \<le> nat lim \<and>
           (\<forall>r\<in>set ([]::chat_row list). h_session_id r = sid \<and>
                         (\<exists>c. db self = Some c \<and> r \<in> set (chat_history c))) \<and>
           sorted_wrt (\<lambda>a b. h_id b \<le> h_id a) ([]::chat_row list) \<and>
           (\<forall>c. db self = Some c \<and> goes_through 1 c \<longrightarrow>
              length ([]::chat_row list) =
                min (nat lim) (length (filter (\<lambda>r. h_session_id r = sid) (chat_history c))) \<and>
              (\<forall>r\<in>set (chat_history c). \<forall>s\<in>set ([]::chat_row list).
                 h_session_id r = sid \<and> r \<notin> set ([]::chat_row list) \<longrightarrow> h_id r \<le> h_id s))"
      by auto
    then show ?thesis by blast
  next
    case rows
    let ?sel = "history_rows (chat_history c) sid lim"
    have 1: "length ?sel \<le> nat lim"
      using history_rows_length [OF assms] by simp
    have 2: "\<forall>r\<in>set ?sel. h_session_id r = sid \<and>
                (\<exists>c. db self = Some c \<and> r \<in> set (chat_history c))"
      using history_rows_subset [of "chat_history c" sid lim] rows(1) by auto
    have 3: "sorted_wrt (\<lambda>a b. h_id b \<le> h_id a) ?sel"
      by (rule history_rows_sorted)
    have 4: "\<forall>c'. db self = Some c' \<and> goes_through 1 c' \<longrightarrow>
              length ?sel =
                min (nat lim) (length (filter (\<lambda>r. h_session_id r = sid) (chat_history c'))) \<and>
              (\<forall>r\<in>set (chat_history c'). \<forall>s\<in>set ?sel.
                 h_session_id r = sid \<and> r \<notin> set ?sel \<longrightarrow> h_id r \<le> h_id s)"
      using rows(1) history_rows_length [OF assms] history_rows_newest [OF assms]
      by auto
    show ?thesis
      using rows(3) 1 2 3 4 by blast
  qed
qed

theorem get_history_limit_order_witness:
  "(0::int) \<le> 2 \<and>
   fst (get_history (sample_service []) ''A'' 2) =
     [[(''role'', ''user''), (''message'', ''More''),
       (''created_at'', ''2025-01-01 10:00:05'')],
      [(''role'', ''assistant''), (''message'', ''Hi''),
       (''created_at'', ''2025-01-01 10:00:00'')]] \<and>
   (\<exists>sel. fst (get_history (sample_service []) ''A'' 2) = map row_dict sel \<and>
      length sel \<le> 2 \<and> (\<forall>r\<in>set sel. h_session_id r = ''A'') \<and>
      sorted_wrt (\<lambda>a b. h_id b \<le> h_id a) sel)"
proof -
  have v: "fst (get_history (sample_service []) ''A'' 2) =
     [[(''role'', ''user''), (''message'', ''More''),
       (''created_at'', ''2025-01-01 10:00:05'')],
      [(''role'', ''assistant''), (''message'', ''Hi''),
       (''created_at'', ''2025-01-01 10:00:00'')]]"
    by (simp add: get_history_def select_history_def begin_call_def history_rows_def
          row_dict_def sample_service_def sample_connection_def sample_rows_def numeral_2_eq_2)
  have "\<exists>sel. fst (get_history (sample_service []) ''A'' 2) = map row_dict sel \<and>
      length sel \<le> 2 \<and> (\<forall>r\<in>set sel. h_session_id r = ''A'') \<and>
      sorted_wrt (\<lambda>a b. h_id b \<le> h_id a) sel"
    using get_history_limit_order [of 2 "sample_service []" "''A''"] by auto
  then show ?thesis
    using v by simp
qed

text \<open>
  C6. When the service has a database and both COUNT queries go through,
  \<open>get_message_stats\<close> returns the number of rows of the session and the number of
  those whose role is "user".
\<close>

theorem get_message_stats_counts:
  assumes "db self = Some c" and "goes_through 2 c"
  shows "fst (get_message_stats self sid) =
           (int (length (filter (\<lambda>r. h_session_id r = sid) (chat_history c))),
            int (length (filter (\<lambda>r. h_session_id r = sid \<and> h_role r = ''user'')
                           (chat_history c))))"
proof -
  have g2: "goes_through (Suc (Suc 0)) c"
    using assms(2) by (simp add: numeral_2_eq_2)
  let ?c1 = "c\<lparr>faults := tl (faults c)\<rparr>"
  have b1: "begin_call c = (None, ?c1)" and g1: "goes_through (Suc 0) ?c1"
    using begin_call_ok [OF g2] by simp_all
  have b2: "begin_call ?c1 = (None, ?c1\<lparr>faults := tl (faults ?c1)\<rparr>)"
    using begin_call_ok [OF g1] by simp
  show ?thesis
    using assms(1) b1 b2
    by (simp add: get_message_stats_def count_session_def count_session_user_def)
qed

theorem get_message_stats_counts_witness:
  "db (sample_service []) = Some (sample_connection []) \<and>
   goes_through 2 (sample_connection []) \<and>
   fst (get_message_stats (sample_service []) ''A'') = (3, 2)"
proof -
  have d: "db (sample_service []) = Some (sample_connection [])"
    by (simp add: sample_service_def)
  have g: "goes_through 2 (sample_connection [])"
    by (simp add: goes_through_def sample_connection_def)
  show ?thesis
    using get_message_stats_counts [OF d g, of "''A''"] d g
    by (simp add: sample_connection_def sample_rows_def)
qed

lemma clear_history_cases:
  "db self = None \<and> clear_history self sid = (0, self) \<or>
   (\<exists>c. db self = Some c \<and> \<not> goes_through 1 c \<and> fst (clear_history self sid) = 0 \<and>
        (\<exists>c'. db (snd (clear_history self sid)) = Some c' \<and> chat_history c' = chat_history c)) \<or>
   (\<exists>c. db self = Some c \<and> goes_through 1 c \<and>
        (fst (clear_history self sid) = 0 \<and> \<not> goes_through 2 c \<or>
         fst (clear_history self sid) = int (length (filter (\<lambda>r. h_session_id r = sid) (chat_history c)))
           \<and> goes_through 2 c) \<and>
        (\<exists>c'. db (snd (clear_history self sid)) = Some c' \<and>
            chat_history c' = filter (\<lambda>r. h_session_id r \<noteq> sid) (chat_history c)))"
proof (cases "db self")
  case None
  then show ?thesis by (simp add: clear_history_def)
next
  case (Some c)
  show ?thesis
  proof (cases "faults c")
    case Nil
    then show ?thesis using Some
      by (simp add: clear_history_def delete_history_def commit_def begin_call_def goes_through_def)
  next
    case (Cons f fs)
    note c1 = Cons
    show ?thesis
    proof (cases f)
      case None
      show ?thesis
      proof (cases fs)
        case Nil
        then show ?thesis using Some c1 None
          by (simp add: clear_history_def delete_history_def commit_def begin_call_def goes_through_def)
      next
        case (Cons g gs)
        then show ?thesis using Some c1 None
          by (cases g)
             (simp_all add: clear_history_def delete_history_def commit_def begin_call_def
                goes_through_def numeral_2_eq_2)
      qed
    next
      case (Some e)
      then show ?thesis using \<open>db self = Some c\<close> c1
        by (simp add: clear_history_def delete_history_def commit_def begin_call_def goes_through_def)
    qed
  qed
qed

text \<open>
  C5. For distinct session ids \<open>A\<close> and \<open>B\<close>, \<open>clear_history A\<close> leaves the rows stored
  under \<open>B\<close> as they were and removes rows of session \<open>A\<close> only: the table is either
  unchanged or has lost exactly the rows of \<open>A\<close>. When the DELETE and the commit both go
  through, all rows of \<open>A\<close> are gone and the value returned is their number; when
  either raises, the value is 0, also after a DELETE that went through and whose commit
  raised. Without a database the value is 0 and nothing changes.
\<close>

theorem clear_history_isolation:
  assumes "A \<noteq> B"
  shows "(db self = None \<and> clear_history self A = (0, self)) \<or>
         (\<exists>c c'. db self = Some c \<and> db (snd (clear_history self A)) = Some c' \<and>
            filter (\<lambda>r. h_session_id r = B) (chat_history c') =
              filter (\<lambda>r. h_session_id r = B) (chat_history c) \<and>
            (chat_history c' = chat_history c \<or>
             chat_history c' = filter (\<lambda>r. h_session_id r \<noteq> A) (chat_history c)) \<and>
            (goes_through 2 c \<longrightarrow>
               chat_history c' = filter (\<lambda>r. h_session_id r \<noteq> A) (chat_history c) \<and>
               fst (clear_history self A) =
                 int (length (filter (\<lambda>r. h_session_id r = A) (chat_history c))) \<and>
               fst (clear_history self A) =
                 int (length (chat_history c)) - int (length (chat_history c'))) \<and>
            (\<not> goes_through 2 c \<longrightarrow> fst (clear_history self A) = 0))"
proof -
  have keepB: "filter (\<lambda>r. h_session_id r = B) (filter (\<lambda>r. h_session_id r \<noteq> A) rows) =
               filter (\<lambda>r. h_session_id r = B) rows" for rows :: "chat_row list"
    using assms by (induction rows) auto
  have len: "int (length (filter (\<lambda>r. h_session_id r = A) rows)) =
             int (length rows) - int (length (filter (\<lambda>r. h_session_id r \<noteq> A) rows))" for rows :: "chat_row list"
    using sum_length_filter_compl [of "\<lambda>r. h_session_id r = A" rows] by simp
  have g21: "goes_through 2 c \<Longrightarrow> goes_through 1 c" for c
    by (cases "faults c") (simp_all add: goes_through_def numeral_2_eq_2)
  show ?thesis
    using clear_history_cases [of self A] keepB len g21
    by (elim disjE exE conjE) (simp, (rule disjI2, force)+)
qed

theorem clear_history_isolation_witness:
  "''A'' \<noteq> ''B'' \<and> goes_through 2 (sample_connection []) \<and>
   fst (clear_history (sample_service []) ''A'') = 3 \<and>
   map_option (map h_id \<circ> chat_history) (db (snd (clear_history (sample_service []) ''A''))) =
     Some [3, 4]"
proof -
  have ne: "''A'' \<noteq> ''B''" by simp
  have g: "goes_through 2 (sample_connection [])"
    by (simp add: goes_through_def sample_connection_def)
  show ?thesis
    using clear_history_isolation [OF ne, of "sample_service []"] g
    by (auto simp: sample_service_def sample_connection_def sample_rows_def)
qed

text \<open>
  The value returned is not always the number of rows deleted: when the DELETE goes
  through and the commit raises, the three rows of session "A" are gone from the table
  the connection sees, and \<open>clear_history\<close> returns 0.
\<close>

theorem clear_history_count_counterexample:
  "map_option (length \<circ> chat_history) (db (sample_service [None, Some database_locked])) = Some 5 \<and>
   map_option (length \<circ> chat_history)
     (db (snd (clear_history (sample_service [None, Some database_locked]) ''A''))) = Some 2 \<and>
   fst (clear_history (sample_service [None, Some database_locked]) ''A'') = 0"
  by (simp add: clear_history_def delete_history_def commit_def begin_call_def
        sample_service_def sample_connection_def sample_rows_def)

section \<open>Properties of the sync client\<close>

lemma todos_echo [simp]: "todos (echo s l) = todos s"
  by (simp add: echo_def)

lemma todos_foldl_echo [simp]: "todos (foldl echo s ls) = todos s"
  by (induction ls arbitrary: s) simp_all

lemma complete_todo_table:
  "todos (complete_todo self tid) =
     map (\<lambda>t. if t_id t = tid then t\<lparr>t_completed := 1\<rparr> else t) (todos self)"
  by (simp add: complete_todo_def Let_def)

lemma map_unmatched:
  "tid \<notin> set (map t_id ts) \<Longrightarrow> map (\<lambda>t. if t_id t = tid then t\<lparr>t_completed := 1\<rparr> else t) ts = ts"
  by (induction ts) auto

lemma filter_unmatched:
  "tid \<notin> set (map t_id ts) \<longleftrightarrow> filter (\<lambda>t. t_id t = tid) ts = []"
  by (induction ts) auto

lemma ids_complete_todo:
  "map t_id (todos (complete_todo self tid)) = map t_id (todos self)"
  by (simp add: complete_todo_table comp_def if_distrib cong: if_cong)

lemma todos_setup_cloud: "todos (snd (setup_cloud ext self u k)) = todos self"
  by (simp add: setup_cloud_def split: option.splits)

lemma todos_list_todos: "todos (snd (list_todos self)) = todos self"
  by (simp add: list_todos_def Let_def)

lemma todos_show_status: "todos (show_status self) = todos self"
  by (simp add: show_status_def Let_def)

lemma todos_add_todo:
  "\<exists>new. todos (snd (add_todo ext self title)) = todos self @ new"
  by (simp add: add_todo_def Let_def)

lemma todos_sync:
  "todos (sync ext self) =
     (if sync_enabled self then snd (cloudsync_network_sync ext (todos self)) else todos self)"
  by (simp add: sync_def Let_def split: prod.splits sum.splits option.splits)

text \<open>
  C9. \<open>complete_todo\<close> keeps the number and order of the rows; in every row the id,
  title, creation time and device stay as they were; a row whose id is the given one
  has \<open>completed\<close> set to 1 and every other row is unchanged. When a row has that id
  "Todo completed!" is echoed; when none has, the table is unchanged and
  "Todo not found" is echoed. No operation of the client removes a row: every id
  present before \<open>complete_todo\<close>, \<open>add_todo\<close>, \<open>list_todos\<close>, \<open>show_status\<close> or
  \<open>setup_cloud\<close> is present after it, and so it is for \<open>sync\<close> as long as the native
  extension, which alone touches the table there, removes none.
\<close>

theorem complete_todo_effect:
  "length (todos (complete_todo self tid)) = length (todos self) \<and>
   (\<forall>i < length (todos self).
      t_id (todos (complete_todo self tid) ! i) = t_id (todos self ! i) \<and>
      t_title (todos (complete_todo self tid) ! i) = t_title (todos self ! i) \<and>
      t_created_at (todos (complete_todo self tid) ! i) = t_created_at (todos self ! i) \<and>
      t_device (todos (complete_todo self tid) ! i) = t_device (todos self ! i) \<and>
      (if t_id (todos self ! i) = tid
       then t_completed (todos (complete_todo self tid) ! i) = 1
       else todos (complete_todo self tid) ! i = todos self ! i)) \<and>
   (tid \<in> set (map t_id (todos self)) \<longrightarrow>
      echoed (complete_todo self tid) = echoed self @ [check_mark @ '' Todo completed!'']) \<and>
   (tid \<notin> set (map t_id (todos self)) \<longrightarrow>
      todos (complete_todo self tid) = todos self \<and>
      echoed (complete_todo self tid) = echoed self @ [cross_mark @ '' Todo not found'']) \<and>
   set (map t_id (todos self)) \<subseteq> set (map t_id (todos (complete_todo self tid))) \<and>
   set (map t_id (todos self)) \<subseteq> set (map t_id (todos (snd (add_todo ext self title)))) \<and>
   set (map t_id (todos self)) \<subseteq> set (map t_id (todos (snd (list_todos self)))) \<and>
   set (map t_id (todos self)) \<subseteq> set (map t_id (todos (show_status self))) \<and>
   set (map t_id (todos self)) \<subseteq> set (map t_id (todos (snd (setup_cloud ext self url key)))) \<and>
   (set (map t_id (todos self)) \<subseteq> set (map t_id (snd (cloudsync_network_sync ext (todos self))))
      \<longrightarrow> set (map t_id (todos self)) \<subseteq> set (map t_id (todos (sync ext self))))"
proof -
  have len: "length (todos (complete_todo self tid)) = length (todos self)"
    by (simp add: complete_todo_table)
  have rows: "\<forall>i < length (todos self).
      t_id (todos (complete_todo self tid) ! i) = t_id (todos self ! i) \<and>
      t_title (todos (complete_todo self tid) ! i) = t_title (todos self ! i) \<and>
      t_created_at (todos (complete_todo self tid) ! i) = t_created_at (todos self ! i) \<and>
      t_device (todos (complete_todo self tid) ! i) = t_device (todos self ! i) \<and>
      (if t_id (todos self ! i) = tid
       then t_completed (todos (complete_todo self tid) ! i) = 1
       else todos (complete_todo self tid) ! i = todos self ! i)"
    by (simp add: complete_todo_table)
  have found: "tid \<in> set (map t_id (todos self)) \<longrightarrow>
      echoed (complete_todo self tid) = echoed self @ [check_mark @ '' Todo completed!'']"
    using filter_unmatched [of tid "todos self"]
    by (simp add: complete_todo_def Let_def echo_def)
  have missing: "tid \<notin> set (map t_id (todos self)) \<longrightarrow>
      todos (complete_todo self tid) = todos self \<and>
      echoed (complete_todo self tid) = echoed self @ [cross_mark @ '' Todo not found'']"
    using filter_unmatched [of tid "todos self"] map_unmatched [of tid "todos self"]
    by (simp add: complete_todo_def Let_def echo_def)
  have k1: "set (map t_id (todos self)) \<subseteq> set (map t_id (todos (complete_todo self tid)))"
    by (simp only: ids_complete_todo subset_refl)
  have k2: "set (map t_id (todos self)) \<subseteq> set (map t_id (todos (snd (add_todo ext self title))))"
    using todos_add_todo [of ext self title] by auto
  have k3: "set (map t_id (todos self)) \<subseteq> set (map t_id (todos (snd (list_todos self))))"
    by (simp only: todos_list_todos subset_refl)
  have k4: "set (map t_id (todos self)) \<subseteq> set (map t_id (todos (show_status self)))"
    by (simp only: todos_show_status subset_refl)
  have k5: "set (map t_id (todos self)) \<subseteq> set (map t_id (todos (snd (setup_cloud ext self url key))))"
    by (simp only: todos_setup_cloud subset_refl)
  have k6: "set (map t_id (todos self)) \<subseteq> set (map t_id (snd (cloudsync_network_sync ext (todos self))))
      \<longrightarrow> set (map t_id (todos self)) \<subseteq> set (map t_id (todos (sync ext self)))"
    by (simp add: todos_sync)
  show ?thesis
    using len rows found missing k1 k2 k3 k4 k5 k6 by blast
qed

theorem complete_todo_effect_witness:
  "''t1'' \<in> set (map t_id (todos sample_sync_client)) \<and>
   ''zz'' \<notin> set (map t_id (todos sample_sync_client)) \<and>
   map t_completed (todos (complete_todo sample_sync_client ''t1'')) = [1, 0] \<and>
   echoed (complete_todo sample_sync_client ''t1'') = [check_mark @ '' Todo completed!''] \<and>
   todos (complete_todo sample_sync_client ''zz'') = todos sample_sync_client \<and>
   echoed (complete_todo sample_sync_client ''zz'') = [cross_mark @ '' Todo not found''] \<and>
   set (map t_id (todos sample_sync_client)) \<subseteq>
     set (map t_id (snd (cloudsync_network_sync sample_cloudsync (todos sample_sync_client)))) \<and>
   set (map t_id (todos sample_sync_client)) \<subseteq>
     set (map t_id (todos (sync sample_cloudsync sample_sync_client)))"
proof -
  have k: "set (map t_id (todos sample_sync_client)) \<subseteq>
     set (map t_id (snd (cloudsync_network_sync sample_cloudsync (todos sample_sync_client))))"
    by (simp add: sample_cloudsync_def)
  have m: "map t_completed (todos (complete_todo sample_sync_client ''t1'')) = [1, 0]"
    by (simp add: complete_todo_def sample_sync_client_def Let_def echo_def)
  have i: "''t1'' \<in> set (map t_id (todos sample_sync_client))"
      "''zz'' \<notin> set (map t_id (todos sample_sync_client))"
    by (simp_all add: sample_sync_client_def)
  have e: "echoed sample_sync_client = []"
    by (simp add: sample_sync_client_def)
  show ?thesis
    using complete_todo_effect [of sample_sync_client "''t1''" sample_cloudsync "''x''" "''u''" "''k''"]
      complete_todo_effect [of sample_sync_client "''zz''" sample_cloudsync "''x''" "''u''" "''k''"]
      k m i e
    by simp
qed

section \<open>Properties of the command-line programs\<close>





















end
